theory Spec2Isabelle
  imports Main "HOL-Library.AList" "HOL-Library.Sublist"
begin

section \<open>Python values\<close>

text \<open>
  The values that flow through the monitoring provider: \<open>None\<close>, booleans, unbounded
  integers, strings, lists, tuples, dictionaries with string keys, and instances of other
  classes (classes that are none of these and derive from none of them). An instance is
  described by what Python can observe of it here: the name of its class, its \<open>str()\<close>
  and \<open>repr()\<close> forms and its truth value. Floats and dictionaries with keys that are
  not strings are outside this range of values, and every statement below is about
  values inside it. A character is a code point below 256; a dictionary is the list of
  its items in insertion order, whose keys are distinct in every dictionary Python can
  build.
\<close>

record pyobject =
  cls_name :: string
  str_form :: string
  repr_form :: string
  truthy :: bool

datatype pyval =
    PNone
  | PBool bool
  | PInt int
  | PStr string
  | PList "pyval list"
  | PTuple "pyval list"
  | PDict "(string \<times> pyval) list"
  | PObj pyobject

text \<open>\<open>type(v).__name__\<close>\<close>

fun class_name :: "pyval \<Rightarrow> string" where
  "class_name PNone = ''NoneType''"
| "class_name (PBool b) = ''bool''"
| "class_name (PInt i) = ''int''"
| "class_name (PStr s) = ''str''"
| "class_name (PList xs) = ''list''"
| "class_name (PTuple xs) = ''tuple''"
| "class_name (PDict kvs) = ''dict''"
| "class_name (PObj ob) = cls_name ob"

text \<open>\<open>bool(v)\<close>, the test behind \<open>if v\<close>, \<open>not v\<close> and \<open>v or w\<close>\<close>

fun py_bool :: "pyval \<Rightarrow> bool" where
  "py_bool PNone = False"
| "py_bool (PBool b) = b"
| "py_bool (PInt i) = (i \<noteq> 0)"
| "py_bool (PStr s) = (s \<noteq> [])"
| "py_bool (PList xs) = (xs \<noteq> [])"
| "py_bool (PTuple xs) = (xs \<noteq> [])"
| "py_bool (PDict kvs) = (kvs \<noteq> [])"
| "py_bool (PObj ob) = truthy ob"

text \<open>\<open>a or b\<close>\<close>

definition py_or :: "pyval \<Rightarrow> pyval \<Rightarrow> pyval" where
  "py_or a b = (if py_bool a then a else b)"

subsection \<open>\<open>str()\<close> and \<open>repr()\<close>\<close>

fun str_nat :: "nat \<Rightarrow> string" where
  "str_nat n =
     (if n < 10 then [''0123456789'' ! n]
      else str_nat (n div 10) @ [''0123456789'' ! (n mod 10)])"

declare str_nat.simps [simp del]

definition str_int :: "int \<Rightarrow> string" where
  "str_int i = (if i < 0 then ''-'' @ str_nat (nat (- i)) else str_nat (nat i))"

definition hex_digit :: "nat \<Rightarrow> char" where
  "hex_digit n = ''0123456789abcdef'' ! (n mod 16)"

text \<open>
  \<open>repr\<close> of a string: single quotes unless the string has a single quote and no double
  quote; the quote and the backslash are escaped, tab, newline and carriage return get
  their letters, every other unprintable code point is written \<open>\xNN\<close>.
\<close>

definition repr_quote :: "string \<Rightarrow> char" where
  "repr_quote s =
     (if CHR 0x27 \<in> set s \<and> CHR 0x22 \<notin> set s then CHR 0x22 else CHR 0x27)"

definition repr_char :: "char \<Rightarrow> char \<Rightarrow> string" where
  "repr_char q c =
     (let n = (of_char c :: nat) in
      if c = q \<or> c = CHR 0x5C then [CHR 0x5C, c]
      else if c = CHR 0x09 then [CHR 0x5C, CHR ''t'']
      else if c = CHR 0x0A then [CHR 0x5C, CHR ''n'']
      else if c = CHR 0x0D then [CHR 0x5C, CHR ''r'']
      else if n < 32 \<or> n = 127 \<or> (128 \<le> n \<and> n \<le> 160) \<or> n = 173
        then [CHR 0x5C, CHR ''x'', hex_digit (n div 16), hex_digit n]
      else [c])"

definition repr_str :: "string \<Rightarrow> string" where
  "repr_str s = (let q = repr_quote s in [q] @ concat (map (repr_char q) s) @ [q])"

text \<open>\<open>', '.join(parts)\<close>\<close>

fun join_comma :: "string list \<Rightarrow> string" where
  "join_comma [] = []"
| "join_comma [p] = p"
| "join_comma (p # q # ps) = p @ '', '' @ join_comma (q # ps)"

fun py_repr :: "pyval \<Rightarrow> string" where
  "py_repr PNone = ''None''"
| "py_repr (PBool b) = (if b then ''True'' else ''False'')"
| "py_repr (PInt i) = str_int i"
| "py_repr (PStr s) = repr_str s"
| "py_repr (PList xs) = ''['' @ join_comma (map py_repr xs) @ '']''"
| "py_repr (PTuple xs) =
     (if length xs = 1 then ''('' @ join_comma (map py_repr xs) @ '',)''
      else ''('' @ join_comma (map py_repr xs) @ '')'')"
| "py_repr (PDict kvs) =
     ''{'' @ join_comma (map (\<lambda>kv. repr_str (fst kv) @ '': '' @ py_repr (snd kv)) kvs) @ ''}''"
| "py_repr (PObj ob) = repr_form ob"

text \<open>
  \<open>str(v)\<close>. \<open>'{}'.format(v)\<close>, \<open>'%s' % v\<close> and an f-string field \<open>{v}\<close> give the same
  text for these values.
\<close>

fun py_str :: "pyval \<Rightarrow> string" where
  "py_str (PStr s) = s"
| "py_str (PObj ob) = str_form ob"
| "py_str v = py_repr v"



section \<open>JSON\<close>

text \<open>
  A JSON text is represented by the document it denotes; the characters of the text
  (spacing, escapes) are not modelled. \<open>json.dumps\<close> raises \<open>TypeError\<close> at the first
  value that has no JSON form and \<open>ValueError\<close> at an integer with more decimal digits
  than the interpreter converts to text (4300 unless configured otherwise), writes lists
  and tuples alike as arrays, and \<open>json.loads\<close> reads an array as a list and an object
  as the dictionary built from its members in order, a repeated key keeping its first
  place and its last value.
\<close>

datatype json =
    JNull
  | JBool bool
  | JNum int
  | JStr string
  | JArr "json list"
  | JObj "(string \<times> json) list"

datatype error =
    SystemExit int
  | KeyError string
  | TypeError
  | ValueError
  | AttributeError
  | JSONDecodeError
  | RequestException

definition int_max_str_digits :: nat where
  "int_max_str_digits = 4300"

definition int_too_long :: "int \<Rightarrow> bool" where
  "int_too_long i = (int_max_str_digits < length (str_nat (nat \<bar>i\<bar>)))"

fun json_dumps :: "pyval \<Rightarrow> error + json"
  and dumps_list :: "pyval list \<Rightarrow> error + json list"
  and dumps_items :: "(string \<times> pyval) list \<Rightarrow> error + (string \<times> json) list" where
  "json_dumps PNone = Inr JNull"
| "json_dumps (PBool b) = Inr (JBool b)"
| "json_dumps (PInt i) = (if int_too_long i then Inl ValueError else Inr (JNum i))"
| "json_dumps (PStr s) = Inr (JStr s)"
| "json_dumps (PList xs) =
     (case dumps_list xs of Inl e \<Rightarrow> Inl e | Inr js \<Rightarrow> Inr (JArr js))"
| "json_dumps (PTuple xs) =
     (case dumps_list xs of Inl e \<Rightarrow> Inl e | Inr js \<Rightarrow> Inr (JArr js))"
| "json_dumps (PDict kvs) =
     (case dumps_items kvs of Inl e \<Rightarrow> Inl e | Inr ms \<Rightarrow> Inr (JObj ms))"
| "json_dumps (PObj ob) = Inl TypeError"
| "dumps_list [] = Inr []"
| "dumps_list (x # xs) =
     (case json_dumps x of Inl e \<Rightarrow> Inl e
      | Inr j \<Rightarrow> (case dumps_list xs of Inl e \<Rightarrow> Inl e | Inr js \<Rightarrow> Inr (j # js)))"
| "dumps_items [] = Inr []"
| "dumps_items ((k, v) # kvs) =
     (case json_dumps v of Inl e \<Rightarrow> Inl e
      | Inr j \<Rightarrow> (case dumps_items kvs of Inl e \<Rightarrow> Inl e | Inr ms \<Rightarrow> Inr ((k, j) # ms)))"

fun json_loads :: "json \<Rightarrow> pyval"
  and loads_list :: "json list \<Rightarrow> pyval list"
  and loads_items :: "(string \<times> pyval) list \<Rightarrow> (string \<times> json) list \<Rightarrow> (string \<times> pyval) list" where
  "json_loads JNull = PNone"
| "json_loads (JBool b) = PBool b"
| "json_loads (JNum i) = PInt i"
| "json_loads (JStr s) = PStr s"
| "json_loads (JArr js) = PList (loads_list js)"
| "json_loads (JObj ms) = PDict (loads_items [] ms)"
| "loads_list [] = []"
| "loads_list (j # js) = json_loads j # loads_list js"
| "loads_items d [] = d"
| "loads_items d ((k, j) # ms) = loads_items (AList.update k (json_loads j) d) ms"




text \<open>\<open>v.get(k)\<close> and \<open>v[k]\<close> for a string key \<open>k\<close>\<close>

fun py_get :: "pyval \<Rightarrow> string \<Rightarrow> error + pyval" where
  "py_get (PDict kvs) k = (case map_of kvs k of None \<Rightarrow> Inr PNone | Some v \<Rightarrow> Inr v)"
| "py_get v k = Inl AttributeError"

fun py_getitem :: "pyval \<Rightarrow> string \<Rightarrow> error + pyval" where
  "py_getitem (PDict kvs) k = (case map_of kvs k of None \<Rightarrow> Inl (KeyError k) | Some v \<Rightarrow> Inr v)"
| "py_getitem v k = Inl TypeError"

section \<open>The process and the network\<close>

datatype http_method = GET | PUT | POST

datatype field = PyField pyval | JsonField json

datatype payload = NoData | FormData "(string \<times> field) list" | JsonText json

record request =
  meth :: http_method
  url :: string
  headers :: "(string \<times> string) list option"
  params :: "(string \<times> pyval) list"
  data :: payload

text \<open>A response: its status code and the JSON document in its body, if the body is one.\<close>

record response =
  status_code :: int
  content :: "json option"

definition response_json :: "response \<Rightarrow> error + pyval" where
  "response_json r = (case content r of None \<Rightarrow> Inl JSONDecodeError | Some j \<Rightarrow> Inr (json_loads j))"

text \<open>
  What the provider reads from its surroundings: the value of \<open>WMS_MONITOR_TOKEN\<close>,
  \<open>os.linesep\<close>, \<open>os.getcwd()\<close>, \<open>os.path.abspath\<close>, \<open>time.asctime()\<close>, and the
  answer of the transport to a request given the requests made before it (a response,
  or an exception of the \<open>requests\<close> library).
\<close>

record env =
  environ_token :: "string option"
  linesep :: string
  getcwd :: string
  abspath :: "string \<Rightarrow> string"
  asctime :: string
  remote :: "request list \<Rightarrow> request \<Rightarrow> error + response"

text \<open>The store of dictionary objects: the items of each address, and the next free address.\<close>

record heap =
  cells :: "nat \<Rightarrow> (string \<times> pyval) list"
  nxt :: nat

text \<open>What the process has written to the error stream and the requests it has issued.\<close>

record world =
  stderr :: string
  sent :: "request list"
  store :: heap

definition stderr_write :: "string \<Rightarrow> world \<Rightarrow> world" where
  "stderr_write s w = w\<lparr>stderr := stderr w @ s\<rparr>"

definition http_request :: "env \<Rightarrow> request \<Rightarrow> world \<Rightarrow> (error + response) \<times> world" where
  "http_request e rq w = (remote e (sent w) rq, w\<lparr>sent := sent w @ [rq]\<rparr>)"

section \<open>MonitoringProvider\<close>

text \<open>\<open>self.server\<close>, the dictionary \<open>{"url": ..., "id": ...}\<close>\<close>

record server_dict =
  server_url :: string
  server_id :: pyval

text \<open>
  The provider object: \<open>settings.host\<close>, which the settings declare as required, and
  the attributes that \<open>__post_init__\<close> and \<open>create_workflow\<close> assign. The metadata are
  a dictionary of strings; \<open>server\<close> is \<open>None\<close> until \<open>create_workflow\<close> has set it.
\<close>

record provider =
  host :: string
  token :: "string option"
  address :: string
  args :: "(string \<times> pyval) list"
  metadata :: "(string \<times> string) list"
  server :: "server_dict option"

definition check_response :: "response \<Rightarrow> string \<Rightarrow> world \<Rightarrow> (error + unit) \<times> world" where
  "check_response resp endpoint w =
     (let code = status_code resp in
      if code = 200 then (Inr (), w)
      else if code = 404 then
        (Inl (SystemExit (- 1)), stderr_write (''The wms '' @ endpoint @ '' endpoint was not found'') w)
      else if code = 401 then
        (Inl (SystemExit (- 1)),
         stderr_write ''Authorization is required with a WMS_MONITOR_TOKEN in the environment'' w)
      else if code = 500 then
        (Inl (SystemExit (- 1)),
         stderr_write (''There was a server error when trying to access '' @ endpoint) w)
      else if code = 403 then
        (Inl (SystemExit (- 1)), stderr_write (''Permission is denied to '' @ endpoint @ ''.'') w)
      else
        (Inr (),
         stderr_write (''The '' @ endpoint @ '' response code '' @ str_int code @ '' is not recognized.'') w))"

definition self_headers :: "provider \<Rightarrow> (string \<times> string) list option" where
  "self_headers self =
     (case token self of
        None \<Rightarrow> None
      | Some t \<Rightarrow> if t = [] then None else Some [(''Authorization'', ''Bearer '' @ t)])"

definition service_info :: "env \<Rightarrow> provider \<Rightarrow> world \<Rightarrow> (error + unit) \<times> world" where
  "service_info e self w =
     (case http_request e
             \<lparr>meth = GET, url = address self @ ''/api/service-info'',
              headers = self_headers self, params = [], data = NoData\<rparr> w of
        (Inl err, w1) \<Rightarrow> (Inl err, w1)
      | (Inr resp, w1) \<Rightarrow>
          if status_code resp \<noteq> 200 then
            (Inl (SystemExit (- 1)),
             stderr_write (''Problem with server: '' @ address self @ '' '' @ linesep e) w1)
          else
            (case response_json resp of
               Inl err \<Rightarrow> (Inl err, w1)
             | Inr body \<Rightarrow>
                 (case py_get body ''status'' of
                    Inl err \<Rightarrow> (Inl err, w1)
                  | Inr st \<Rightarrow>
                      if st \<noteq> PStr ''running'' then
                        (Inl (SystemExit (- 1)),
                         stderr_write (''The status of the server '' @ address self
                                       @ '' is not in '' @ [CHR 0x27] @ ''running'' @ [CHR 0x27]
                                       @ '' mode '' @ linesep e) w1)
                      else (Inr (), w1))))"


definition create_workflow :: "env \<Rightarrow> provider \<Rightarrow> world \<Rightarrow> (error + provider) \<times> world" where
  "create_workflow e self w =
     (let workdir =
            (case map_of (metadata self) ''directory'' of
               None \<Rightarrow> getcwd e
             | Some d \<Rightarrow> if d = [] then getcwd e else abspath e d);
          form =
            FormData
              [(''command'',
                PyField (case map_of (metadata self) ''command'' of
                           None \<Rightarrow> PNone | Some c \<Rightarrow> PStr c)),
               (''workdir'', PyField (PStr workdir))]
      in
      case http_request e
             \<lparr>meth = GET, url = address self @ ''/create_workflow'',
              headers = self_headers self, params = args self, data = form\<rparr> w of
        (Inl err, w1) \<Rightarrow> (Inl err, w1)
      | (Inr resp, w1) \<Rightarrow>
          (case response_json resp of
             Inl err \<Rightarrow> (Inl err, w1)
           | Inr body \<Rightarrow>
               (case py_getitem body ''id'' of
                  Inl err \<Rightarrow> (Inl err, w1)
                | Inr ident \<Rightarrow>
                    (case check_response resp ''/create_workflow'' w1 of
                       (Inl err, w2) \<Rightarrow> (Inl err, w2)
                     | (Inr u, w2) \<Rightarrow>
                         (let hdrs =
                                (case self_headers self of
                                   None \<Rightarrow> [(''Content-Type'', ''application/json'')]
                                 | Some h \<Rightarrow>
                                     AList.update ''Content-Type'' ''application/json'' h)
                          in
                          case json_dumps (PDict (args self)) of
                            Inl err \<Rightarrow> (Inl err, w2)
                          | Inr text \<Rightarrow>
                              (case http_request e
                                      \<lparr>meth = PUT,
                                       url = address self @ ''/api/workflow/'' @ py_str ident,
                                       headers = Some hdrs, params = [],
                                       data = JsonText text\<rparr> w2 of
                                 (Inl err, w3) \<Rightarrow> (Inl err, w3)
                               | (Inr resp2, w3) \<Rightarrow>
                                   (case check_response resp2
                                           (''/api/workflow/'' @ py_str ident) w3 of
                                      (Inl err, w4) \<Rightarrow> (Inl err, w4)
                                    | (Inr u2, w4) \<Rightarrow>
                                        (Inr (self\<lparr>server :=
                                                     Some \<lparr>server_url = address self,
                                                           server_id = ident\<rparr>\<rparr>),
                                         w4))))))))"

text \<open>
  \<open>self.args = []\<close> followed by the comprehension over that empty list leaves the empty
  dictionary in \<open>self.args\<close>.
\<close>

definition post_init :: "env \<Rightarrow> provider \<Rightarrow> world \<Rightarrow> (error + provider) \<times> world" where
  "post_init e self w =
     (let self1 = self\<lparr>token := environ_token e, address := host self,
                       args := [], metadata := []\<rparr>
      in
      case service_info e self1 w of
        (Inl err, w1) \<Rightarrow> (Inl err, w1)
      | (Inr u, w1) \<Rightarrow> create_workflow e self1 w1)"

subsection \<open>The log handler\<close>

text \<open>\<open>result = {}\<close> and \<open>result[key] = value\<close> on the store\<close>

definition new_dict :: "heap \<Rightarrow> nat \<times> heap" where
  "new_dict h = (nxt h, h\<lparr>cells := (cells h)(nxt h := []), nxt := Suc (nxt h)\<rparr>)"

definition setitem :: "nat \<Rightarrow> string \<Rightarrow> pyval \<Rightarrow> heap \<Rightarrow> heap" where
  "setitem a k v h = h\<lparr>cells := (cells h)(a := AList.update k v (cells h a))\<rparr>"

text \<open>
  The loop of \<open>_parse_message\<close> over the items that \<open>msg\<close> has when the loop
  starts; \<open>msg\<close> and \<open>result\<close> are the addresses of the two dictionaries, and the
  exception branch reads \<open>msg["exception"]\<close> from the store again.
\<close>

fun parse_loop :: "nat \<Rightarrow> nat \<Rightarrow> (string \<times> pyval) list \<Rightarrow> heap \<Rightarrow> (error + unit) \<times> heap" where
  "parse_loop msg result [] h = (Inr (), h)"
| "parse_loop msg result ((key, val) # items) h =
     (if key = ''job'' then
        parse_loop msg result items (setitem result key (PStr (py_str val)) h)
      else if key = ''exception'' then
        (case py_getitem (PDict (cells h msg)) ''exception'' of
           Inl err \<Rightarrow> (Inl err, h)
         | Inr ex \<Rightarrow>
             parse_loop msg result items
               (setitem result key
                  (PStr (class_name ex @ '': '' @ py_str (py_or ex (PStr ''Exception'')))) h))
      else parse_loop msg result items (setitem result key val h))"

definition parse_message :: "nat \<Rightarrow> heap \<Rightarrow> (error + json) \<times> heap" where
  "parse_message msg h =
     (case new_dict h of
        (result, h0) \<Rightarrow>
          (case parse_loop msg result (cells h0 msg) h0 of
             (Inl err, h1) \<Rightarrow> (Inl err, h1)
           | (Inr u, h1) \<Rightarrow> (json_dumps (PDict (cells h1 result)), h1)))"

definition log_handler :: "env \<Rightarrow> provider \<Rightarrow> nat \<Rightarrow> world \<Rightarrow> (error + unit) \<times> world" where
  "log_handler e self msg w =
     (case server self of
        None \<Rightarrow> (Inl AttributeError, w)
      | Some srv \<Rightarrow>
          (let target = server_url srv @ ''/update_workflow_status'' in
           case parse_message msg (store w) of
             (Inl err, h1) \<Rightarrow> (Inl err, w\<lparr>store := h1\<rparr>)
           | (Inr text, h1) \<Rightarrow>
               (let form =
                      FormData
                        [(''msg'', JsonField text),
                         (''timestamp'', PyField (PStr (asctime e))),
                         (''id'', PyField (server_id srv))]
                in
                case http_request e
                       \<lparr>meth = POST, url = target, headers = self_headers self,
                        params = [], data = form\<rparr> (w\<lparr>store := h1\<rparr>) of
                  (Inl err, w2) \<Rightarrow> (Inl err, w2)
                | (Inr resp, w2) \<Rightarrow> check_response resp ''/update_workflow_status'' w2)))"


subsection \<open>Observations used in the statements\<close>

text \<open>The process before it has written, sent or allocated anything.\<close>

definition empty_heap :: heap where
  "empty_heap = \<lparr>cells = (\<lambda>a. []), nxt = 0\<rparr>"

definition empty_world :: world where
  "empty_world = \<lparr>stderr = [], sent = [], store = empty_heap\<rparr>"

text \<open>The outcome is \<open>sys.exit\<close> with a code other than zero.\<close>

fun exits_nonzero :: "error + 'a \<Rightarrow> bool" where
  "exits_nonzero (Inl (SystemExit c)) = (c \<noteq> 0)"
| "exits_nonzero r = False"


text \<open>The value of the \<open>Authorization\<close> header in an optional header set.\<close>

definition auth_of :: "(string \<times> string) list option \<Rightarrow> string option" where
  "auth_of hs = (case hs of None \<Rightarrow> None | Some h \<Rightarrow> map_of h ''Authorization'')"

text \<open>
  The three requests of start-up as the code builds them: the GET of \<open>service_info\<close>,
  the GET of \<open>create_workflow\<close>, and its PUT for the workflow \<open>ident\<close> with the
  JSON text of \<open>self.args\<close>.
\<close>

definition service_request :: "provider \<Rightarrow> request" where
  "service_request self =
     \<lparr>meth = GET, url = address self @ ''/api/service-info'',
      headers = self_headers self, params = [], data = NoData\<rparr>"

definition create_request :: "env \<Rightarrow> provider \<Rightarrow> request" where
  "create_request e self =
     \<lparr>meth = GET, url = address self @ ''/create_workflow'',
      headers = self_headers self, params = args self,
      data = FormData
        [(''command'',
          PyField (case map_of (metadata self) ''command'' of
                     None \<Rightarrow> PNone | Some c \<Rightarrow> PStr c)),
         (''workdir'',
          PyField (PStr (case map_of (metadata self) ''directory'' of
                           None \<Rightarrow> getcwd e
                         | Some d \<Rightarrow> if d = [] then getcwd e else abspath e d)))]\<rparr>"

definition update_request :: "provider \<Rightarrow> pyval \<Rightarrow> json \<Rightarrow> request" where
  "update_request self ident text =
     \<lparr>meth = PUT, url = address self @ ''/api/workflow/'' @ py_str ident,
      headers = Some (case self_headers self of
                        None \<Rightarrow> [(''Content-Type'', ''application/json'')]
                      | Some h \<Rightarrow> AList.update ''Content-Type'' ''application/json'' h),
      params = [], data = JsonText text\<rparr>"

text \<open>The requests issued between two states of the process.\<close>

definition issued :: "world \<Rightarrow> world \<Rightarrow> request list" where
  "issued w w' = drop (length (sent w)) (sent w')"

text \<open>
  A request carries the authentication of the provider: its \<open>Authorization\<close> header is
  that of \<open>self._headers\<close>, and unless it is the PUT, which adds a content type, its
  header set is \<open>self._headers\<close> itself.
\<close>

definition carries_auth :: "provider \<Rightarrow> request \<Rightarrow> bool" where
  "carries_auth self rq =
     (auth_of (headers rq) = auth_of (self_headers self)
      \<and> (meth rq \<noteq> PUT \<longrightarrow> headers rq = self_headers self))"



text \<open>
  Python converts the value to text: no integer inside it has more digits than the
  interpreter's limit, beyond which \<open>str()\<close>, \<open>repr()\<close> and formatting raise
  \<open>ValueError\<close>. For an instance the two forms are the ones it gives.
\<close>

fun str_defined :: "pyval \<Rightarrow> bool"
  and str_defined_list :: "pyval list \<Rightarrow> bool"
  and str_defined_items :: "(string \<times> pyval) list \<Rightarrow> bool" where
  "str_defined (PInt i) = (\<not> int_too_long i)"
| "str_defined (PList xs) = str_defined_list xs"
| "str_defined (PTuple xs) = str_defined_list xs"
| "str_defined (PDict kvs) = str_defined_items kvs"
| "str_defined v = True"
| "str_defined_list [] = True"
| "str_defined_list (x # xs) = (str_defined x \<and> str_defined_list xs)"
| "str_defined_items [] = True"
| "str_defined_items ((k, v) # kvs) = (str_defined v \<and> str_defined_items kvs)"

text \<open>
  Concrete surroundings for running the provider on examples: a transport that answers
  the \<open>n\<close>-th request with the \<open>n\<close>-th response of a script and raises after the last
  one, a store that holds one dictionary at address 0, and a provider object for a host.
\<close>

definition answering :: "response list \<Rightarrow> request list \<Rightarrow> request \<Rightarrow> error + response" where
  "answering script hist rq =
     (if length hist < length script then Inr (script ! length hist) else Inl RequestException)"

definition scripted_env :: "string option \<Rightarrow> response list \<Rightarrow> env" where
  "scripted_env tok script =
     \<lparr>environ_token = tok, linesep = [CHR 0x0A], getcwd = ''/work'', abspath = (\<lambda>p. p),
      asctime = ''Sat Jun  6 16:26:11 1998'', remote = answering script\<rparr>"


definition provider_for :: "string \<Rightarrow> string option \<Rightarrow> provider" where
  "provider_for h tok =
     \<lparr>host = h, token = tok, address = h, args = [], metadata = [], server = None\<rparr>"

text \<open>
  Three responses for a start-up that succeeds: the service is running, the workflow gets
  the id \<open>"42"\<close>, and the update of the workflow is accepted.
\<close>

definition ready_script :: "response list" where
  "ready_script =
     [\<lparr>status_code = 200, content = Some (JObj [(''status'', JStr ''running'')])\<rparr>,
      \<lparr>status_code = 200, content = Some (JObj [(''id'', JStr ''42'')])\<rparr>,
      \<lparr>status_code = 200, content = None\<rparr>]"

section \<open>The response classifier\<close>

text \<open>
  C1, as stated, fails at status 401: the diagnostic written there is the fixed sentence
  about \<open>WMS_MONITOR_TOKEN\<close>, in which the endpoint name \<open>/create_workflow\<close> does
  not occur, although the process does exit with code \<open>-1\<close>.
\<close>

theorem check_response_401_endpoint_counterexample:
  "fst (check_response \<lparr>status_code = 401, content = None\<rparr> ''/create_workflow'' empty_world)
     = Inl (SystemExit (- 1))
   \<and> \<not> sublist ''/create_workflow''
         (stderr (snd (check_response \<lparr>status_code = 401, content = None\<rparr>
                         ''/create_workflow'' empty_world)))"
proof -
  have "CHR ''/'' \<notin> set ''Authorization is required with a WMS_MONITOR_TOKEN in the environment''"
    by simp
  then have "\<not> sublist ''/create_workflow''
                 ''Authorization is required with a WMS_MONITOR_TOKEN in the environment''"
    using set_mono_sublist by fastforce
  then show ?thesis
    by (simp add: check_response_def stderr_write_def empty_world_def)
qed

text \<open>
  C1, amended: for every status code in \<open>{404, 401, 403, 500}\<close> and every endpoint name,
  \<open>check_response\<close> appends a non-empty diagnostic to the error stream, changes nothing
  else, and exits with the non-zero code \<open>-1\<close>. For 404, 403 and 500 the diagnostic
  contains the endpoint name; for 401 it is the fixed sentence that asks for a
  \<open>WMS_MONITOR_TOKEN\<close> in the environment.
\<close>

theorem check_response_fatal:
  assumes "status_code resp \<in> {404, 401, 403, 500}"
  shows "\<exists>d. check_response resp endpoint w
               = (Inl (SystemExit (- 1)), w\<lparr>stderr := stderr w @ d\<rparr>)
        \<and> exits_nonzero (fst (check_response resp endpoint w))
        \<and> d \<noteq> []
        \<and> (status_code resp \<noteq> 401 \<longrightarrow> sublist endpoint d)
        \<and> (status_code resp = 401 \<longrightarrow>
             d = ''Authorization is required with a WMS_MONITOR_TOKEN in the environment'')"
proof -
  consider "status_code resp = 404" | "status_code resp = 401"
    | "status_code resp = 500" | "status_code resp = 403"
    using assms by auto
  then show ?thesis
  proof cases
    case 1
    have "sublist endpoint (''The wms '' @ endpoint @ '' endpoint was not found'')"
      by (rule sublist_appendI)
    with 1 show ?thesis
      by (intro exI[of _ "''The wms '' @ endpoint @ '' endpoint was not found''"])
         (simp add: check_response_def stderr_write_def)
  next
    case 2
    then show ?thesis
      by (intro exI[of _ "''Authorization is required with a WMS_MONITOR_TOKEN in the environment''"])
         (simp add: check_response_def stderr_write_def)
  next
    case 3
    have "sublist endpoint (''There was a server error when trying to access '' @ endpoint)"
      by (rule sublist_append_leftI)
    with 3 show ?thesis
      by (intro exI[of _ "''There was a server error when trying to access '' @ endpoint"])
         (simp add: check_response_def stderr_write_def)
  next
    case 4
    have "sublist endpoint (''Permission is denied to '' @ endpoint @ ''.'')"
      by (rule sublist_appendI)
    with 4 show ?thesis
      by (intro exI[of _ "''Permission is denied to '' @ endpoint @ ''.''"])
         (simp add: check_response_def stderr_write_def)
  qed
qed

theorem check_response_fatal_witness:
  "(404::int) \<in> {404, 401, 403, 500}
   \<and> fst (check_response \<lparr>status_code = 404, content = None\<rparr> ''/create_workflow'' empty_world)
       = Inl (SystemExit (- 1))
   \<and> sublist ''/create_workflow''
       (stderr (snd (check_response \<lparr>status_code = 404, content = None\<rparr>
                       ''/create_workflow'' empty_world)))"
  using check_response_fatal
          [of "\<lparr>status_code = 404, content = None\<rparr>" "''/create_workflow''" empty_world]
  by (auto simp: empty_world_def)

text \<open>
  C2: for every status code outside \<open>{200, 404, 401, 403, 500}\<close> and every endpoint name,
  \<open>check_response\<close> appends the diagnostic
  \<open>The <endpoint> response code <code> is not recognized.\<close> to the error stream and
  returns normally; for status 200 it returns at once and leaves the error stream, the
  requests and the store as they were.
\<close>

theorem check_response_unrecognized:
  "(status_code resp \<notin> {200, 404, 401, 403, 500} \<longrightarrow>
      check_response resp endpoint w =
        (Inr (), w\<lparr>stderr := stderr w @ ''The '' @ endpoint @ '' response code ''
                      @ str_int (status_code resp) @ '' is not recognized.''\<rparr>))
   \<and> (status_code resp = 200 \<longrightarrow> check_response resp endpoint w = (Inr (), w))"
  by (auto simp: check_response_def stderr_write_def Let_def)

theorem check_response_unrecognized_witness:
  "status_code \<lparr>status_code = 418, content = None\<rparr> \<notin> {200, 404, 401, 403, 500}
   \<and> check_response \<lparr>status_code = 418, content = None\<rparr> ''/create_workflow'' empty_world =
       (Inr (), empty_world\<lparr>stderr := ''The /create_workflow response code 418 is not recognized.''\<rparr>)
   \<and> status_code \<lparr>status_code = 200, content = None\<rparr> = 200
   \<and> check_response \<lparr>status_code = 200, content = None\<rparr> ''/create_workflow'' empty_world =
       (Inr (), empty_world)"
  using check_response_unrecognized
          [of "\<lparr>status_code = 418, content = None\<rparr>" "''/create_workflow''" empty_world]
        check_response_unrecognized
          [of "\<lparr>status_code = 200, content = None\<rparr>" "''/create_workflow''" empty_world]
  by (simp add: empty_world_def str_int_def str_nat.simps)


section \<open>Start-up: service check and workflow registration\<close>

text \<open>
  C3, as stated, fails: when the service answers 200 with \<open>{"status": "paused"}\<close> the
  process exits with code \<open>-1\<close>, but the diagnostic only says that the server is not in
  \<open>'running'\<close> mode; the reported state \<open>paused\<close> does not occur in it.
\<close>

theorem service_info_state_counterexample:
  "fst (service_info
          (scripted_env None
             [\<lparr>status_code = 200, content = Some (JObj [(''status'', JStr ''paused'')])\<rparr>])
          (provider_for ''localhost:5000'' None) empty_world) = Inl (SystemExit (- 1))
   \<and> \<not> sublist ''paused''
        (stderr (snd (service_info
          (scripted_env None
             [\<lparr>status_code = 200, content = Some (JObj [(''status'', JStr ''paused'')])\<rparr>])
          (provider_for ''localhost:5000'' None) empty_world)))"
proof -
  let ?d = "''The status of the server localhost:5000 is not in '' @ [CHR 0x27]
              @ ''running'' @ [CHR 0x27] @ '' mode '' @ [CHR 0x0A]"
  have "CHR ''p'' \<notin> set ?d"
    by simp
  then have "\<not> sublist ''paused'' ?d"
    using set_mono_sublist by fastforce
  then show ?thesis
    by (simp add: service_info_def http_request_def scripted_env_def answering_def
        provider_for_def empty_world_def response_json_def stderr_write_def)
qed

text \<open>
  C3, amended: when the service-info request returns status 200 and the \<open>status\<close> field
  of the decoded body (\<open>None\<close> if the body has no such field) is not the string
  \<open>"running"\<close>, \<open>service_info\<close> appends to the error stream the diagnostic
  \<open>The status of the server <address> is not in 'running' mode\<close> followed by the line
  separator, which names the server address and not the reported state, and exits with
  the non-zero code \<open>-1\<close>, having issued that one request.
\<close>

theorem service_info_not_running:
  assumes "remote e (sent w) (service_request self) = Inr resp"
    and "status_code resp = 200"
    and "response_json resp = Inr body"
    and "py_get body ''status'' = Inr st"
    and "st \<noteq> PStr ''running''"
  shows "service_info e self w =
           (Inl (SystemExit (- 1)),
            w\<lparr>sent := sent w @ [service_request self],
              stderr := stderr w @ ''The status of the server '' @ address self
                          @ '' is not in '' @ [CHR 0x27] @ ''running'' @ [CHR 0x27]
                          @ '' mode '' @ linesep e\<rparr>)
         \<and> exits_nonzero (fst (service_info e self w))
         \<and> sublist (address self)
             (''The status of the server '' @ address self
                @ '' is not in '' @ [CHR 0x27] @ ''running'' @ [CHR 0x27]
                @ '' mode '' @ linesep e)"
proof -
  have "sublist (address self)
          (''The status of the server '' @ address self
             @ ('' is not in '' @ [CHR 0x27] @ ''running'' @ [CHR 0x27] @ '' mode '' @ linesep e))"
    by (rule sublist_appendI)
  then show ?thesis using assms
    by (simp add: service_info_def service_request_def http_request_def stderr_write_def)
qed

theorem service_info_not_running_witness:
  "service_info
     (scripted_env None
        [\<lparr>status_code = 200, content = Some (JObj [(''status'', JStr ''paused'')])\<rparr>])
     (provider_for ''localhost:5000'' None) empty_world
   = (Inl (SystemExit (- 1)),
      empty_world
        \<lparr>sent := [\<lparr>meth = GET, url = ''localhost:5000/api/service-info'',
                    headers = None, params = [], data = NoData\<rparr>],
         stderr := ''The status of the server localhost:5000 is not in '' @ [CHR 0x27]
                     @ ''running'' @ [CHR 0x27] @ '' mode '' @ [CHR 0x0A]\<rparr>)"
  using service_info_not_running [of
     "scripted_env None
        [\<lparr>status_code = 200, content = Some (JObj [(''status'', JStr ''paused'')])\<rparr>]"
     empty_world "provider_for ''localhost:5000'' None"
     "\<lparr>status_code = 200, content = Some (JObj [(''status'', JStr ''paused'')])\<rparr>"
     "PDict [(''status'', PStr ''paused'')]" "PStr ''paused''"]
  by (simp add: scripted_env_def answering_def provider_for_def empty_world_def
      response_json_def self_headers_def service_request_def)

lemma not_suffix_create: "\<not> suffix ''/create_workflow'' (a @ ''/api/service-info'')"
proof
  assume "suffix ''/create_workflow'' (a @ ''/api/service-info'')"
  then obtain zs where "a @ ''/api/service-info'' = zs @ ''/create_workflow''"
    by (auto simp: suffix_def)
  then have "last (a @ ''/api/service-info'') = last (zs @ ''/create_workflow'')"
    by simp
  then show False by simp
qed

text \<open>
  C6: if the GET to \<open><address>/api/service-info\<close> that \<open>__post_init__\<close> makes first is
  answered with a status other than 200, the process exits with the non-zero code \<open>-1\<close>
  after appending \<open>Problem with server: <address>\<close> and the line separator to the error
  stream; that GET is the only request issued, and its URL does not end in
  \<open>/create_workflow\<close>.
\<close>

theorem post_init_unreachable:
  assumes "remote e (sent w)
             (service_request (self\<lparr>token := environ_token e, address := host self\<rparr>))
           = Inr resp"
    and "status_code resp \<noteq> 200"
  shows "post_init e self w =
           (Inl (SystemExit (- 1)),
            w\<lparr>sent := sent w
                 @ [service_request (self\<lparr>token := environ_token e, address := host self\<rparr>)],
              stderr := stderr w @ ''Problem with server: '' @ host self @ '' '' @ linesep e\<rparr>)
         \<and> exits_nonzero (fst (post_init e self w))
         \<and> sublist (host self) (''Problem with server: '' @ host self @ '' '' @ linesep e)
         \<and> (\<forall>rq \<in> set (issued w (snd (post_init e self w))).
               \<not> suffix ''/create_workflow'' (url rq))"
proof -
  have "sublist (host self) (''Problem with server: '' @ host self @ ('' '' @ linesep e))"
    by (rule sublist_appendI)
  then show ?thesis using assms not_suffix_create [of "host self"]
    by (simp add: post_init_def service_info_def service_request_def http_request_def
        stderr_write_def self_headers_def issued_def)
qed

theorem post_init_unreachable_witness:
  "post_init (scripted_env None [\<lparr>status_code = 500, content = None\<rparr>])
             (provider_for ''localhost:5000'' None) empty_world
   = (Inl (SystemExit (- 1)),
      empty_world\<lparr>sent := [\<lparr>meth = GET, url = ''localhost:5000/api/service-info'',
                             headers = None, params = [], data = NoData\<rparr>],
                   stderr := ''Problem with server: localhost:5000 '' @ [CHR 0x0A]\<rparr>)"
  using post_init_unreachable [of
     "scripted_env None [\<lparr>status_code = 500, content = None\<rparr>]"
     empty_world "provider_for ''localhost:5000'' None"
     "\<lparr>status_code = 500, content = None\<rparr>"]
  by (simp add: scripted_env_def answering_def provider_for_def empty_world_def
      self_headers_def service_request_def)

text \<open>
  C7: when the response to the GET of \<open>/create_workflow\<close> has status 200 and a body
  whose \<open>id\<close> is the string \<open>"42"\<close>, and the PUT to \<open>/api/workflow/42\<close> that follows
  is answered with status 200, \<open>create_workflow\<close> returns normally, writes nothing to
  the error stream, and leaves in \<open>self.server\<close> the address of the provider as
  \<open>url\<close> and \<open>"42"\<close> as \<open>id\<close>.
\<close>

theorem create_workflow_session:
  assumes "remote e (sent w) (create_request e self) = Inr resp"
    and "status_code resp = 200"
    and "response_json resp = Inr body"
    and "py_getitem body ''id'' = Inr (PStr ''42'')"
    and "json_dumps (PDict (args self)) = Inr text"
    and "remote e (sent w @ [create_request e self]) (update_request self (PStr ''42'') text)
         = Inr resp2"
    and "status_code resp2 = 200"
  shows "fst (create_workflow e self w)
           = Inr (self\<lparr>server := Some \<lparr>server_url = address self, server_id = PStr ''42''\<rparr>\<rparr>)
         \<and> stderr (snd (create_workflow e self w)) = stderr w
         \<and> issued w (snd (create_workflow e self w))
             = [create_request e self, update_request self (PStr ''42'') text]"
  using assms
  by (simp add: create_workflow_def create_request_def update_request_def http_request_def
      check_response_def issued_def Let_def)

theorem create_workflow_session_witness:
  "fst (create_workflow
          (scripted_env None
             [\<lparr>status_code = 200, content = Some (JObj [(''id'', JStr ''42'')])\<rparr>,
              \<lparr>status_code = 200, content = None\<rparr>])
          (provider_for ''localhost:5000'' None) empty_world)
   = Inr ((provider_for ''localhost:5000'' None)
            \<lparr>server := Some \<lparr>server_url = ''localhost:5000'', server_id = PStr ''42''\<rparr>\<rparr>)"
  using create_workflow_session [of
     "scripted_env None
        [\<lparr>status_code = 200, content = Some (JObj [(''id'', JStr ''42'')])\<rparr>,
         \<lparr>status_code = 200, content = None\<rparr>]"
     empty_world "provider_for ''localhost:5000'' None"
     "\<lparr>status_code = 200, content = Some (JObj [(''id'', JStr ''42'')])\<rparr>"
     "PDict [(''id'', PStr ''42'')]" "JObj []" "\<lparr>status_code = 200, content = None\<rparr>"]
  by (simp add: scripted_env_def answering_def provider_for_def empty_world_def
      self_headers_def response_json_def create_request_def update_request_def)

text \<open>
  C9: \<open>create_workflow\<close> reads \<open>response.json()["id"]\<close> before it calls
  \<open>check_response\<close>. So whenever the body of the \<open>/create_workflow\<close> response is a
  JSON object without the key \<open>id\<close>, \<open>create_workflow\<close> raises \<open>KeyError('id')\<close>,
  whatever the status code of the response is: nothing is written to the error stream,
  the process does not exit through \<open>check_response\<close>, and no PUT is issued.
\<close>

theorem create_workflow_missing_id:
  assumes "remote e (sent w) (create_request e self) = Inr resp"
    and "response_json resp = Inr (PDict kvs)"
    and "''id'' \<notin> fst ` set kvs"
  shows "create_workflow e self w =
           (Inl (KeyError ''id''), w\<lparr>sent := sent w @ [create_request e self]\<rparr>)"
proof -
  from assms(3) have "map_of kvs ''id'' = None"
    by (simp add: map_of_eq_None_iff)
  with assms(1,2) show ?thesis
    by (simp add: create_workflow_def create_request_def http_request_def Let_def)
qed

theorem create_workflow_missing_id_witness:
  "create_workflow
     (scripted_env None
        [\<lparr>status_code = 404, content = Some (JObj [(''detail'', JStr ''no'')])\<rparr>])
     (provider_for ''localhost:5000'' None) empty_world
   = (Inl (KeyError ''id''),
      empty_world
        \<lparr>sent := [\<lparr>meth = GET, url = ''localhost:5000/create_workflow'',
                    headers = None, params = [],
                    data = FormData [(''command'', PyField PNone),
                                     (''workdir'', PyField (PStr ''/work''))]\<rparr>]\<rparr>)"
  using create_workflow_missing_id [of
     "scripted_env None
        [\<lparr>status_code = 404, content = Some (JObj [(''detail'', JStr ''no'')])\<rparr>]"
     empty_world "provider_for ''localhost:5000'' None"
     "\<lparr>status_code = 404, content = Some (JObj [(''detail'', JStr ''no'')])\<rparr>"
     "[(''detail'', PStr ''no'')]"]
  by (simp add: scripted_env_def answering_def provider_for_def empty_world_def
      self_headers_def response_json_def create_request_def)


section \<open>Authentication headers\<close>

lemma check_response_sent:
  "check_response r ep w = (x, w') \<Longrightarrow> sent w' = sent w"
  by (auto simp: check_response_def stderr_write_def Let_def split: if_splits)

lemma check_response_sent_snd: "sent (snd (check_response r ep w)) = sent w"
  by (cases "check_response r ep w") (simp add: check_response_sent)

lemma auth_of_content_type:
  "auth_of (Some (case self_headers self of
                    None \<Rightarrow> [(''Content-Type'', ''application/json'')]
                  | Some h \<Rightarrow> AList.update ''Content-Type'' ''application/json'' h))
   = auth_of (self_headers self)"
  by (simp add: auth_of_def self_headers_def split: option.splits)

lemma service_info_sent:
  "service_info e self w = (x, w') \<Longrightarrow>
     \<exists>rs. sent w' = sent w @ rs \<and> (\<forall>rq \<in> set rs. carries_auth self rq)"
  by (auto simp: service_info_def http_request_def stderr_write_def carries_auth_def
      split: sum.splits prod.splits if_splits)

lemma create_workflow_sent:
  "create_workflow e self w = (x, w') \<Longrightarrow>
     \<exists>rs. sent w' = sent w @ rs \<and> (\<forall>rq \<in> set rs. carries_auth self rq)"
  unfolding create_workflow_def http_request_def Let_def
  by (auto simp: carries_auth_def auth_of_content_type
      split: sum.splits prod.splits dest!: check_response_sent)

lemma issued_append: "sent w' = sent w @ rs \<Longrightarrow> issued w w' = rs"
  by (simp add: issued_def)

lemma service_info_auth:
  "\<forall>rq \<in> set (issued w (snd (service_info e self w))). carries_auth self rq"
proof -
  obtain x w' where r: "service_info e self w = (x, w')"
    by (cases "service_info e self w")
  from service_info_sent [OF r] show ?thesis
    by (auto simp: r issued_append)
qed

lemma create_workflow_auth:
  "\<forall>rq \<in> set (issued w (snd (create_workflow e self w))). carries_auth self rq"
proof -
  obtain x w' where r: "create_workflow e self w = (x, w')"
    by (cases "create_workflow e self w")
  from create_workflow_sent [OF r] show ?thesis
    by (auto simp: r issued_append)
qed

lemma carries_auth_token:
  "token self' = token self \<Longrightarrow> carries_auth self' rq = carries_auth self rq"
  by (simp add: carries_auth_def self_headers_def)

lemma post_init_auth:
  "\<forall>rq \<in> set (issued w (snd (post_init e self w))).
      carries_auth (self\<lparr>token := environ_token e\<rparr>) rq"
proof -
  let ?self1 = "self\<lparr>token := environ_token e, address := host self, args := [], metadata := []\<rparr>"
  have tok: "\<And>rq. carries_auth ?self1 rq = carries_auth (self\<lparr>token := environ_token e\<rparr>) rq"
    by (rule carries_auth_token) simp
  obtain x w1 where s: "service_info e ?self1 w = (x, w1)"
    by (cases "service_info e ?self1 w")
  from service_info_sent [OF s] obtain rs where
    rs: "sent w1 = sent w @ rs" "\<forall>rq \<in> set rs. carries_auth ?self1 rq"
    by blast
  show ?thesis
  proof (cases x)
    case (Inl err)
    then show ?thesis
      using s rs by (simp add: post_init_def issued_append tok)
  next
    case (Inr u)
    obtain y w2 where c: "create_workflow e ?self1 w1 = (y, w2)"
      by (cases "create_workflow e ?self1 w1")
    from create_workflow_sent [OF c] obtain rs2 where
      rs2: "sent w2 = sent w1 @ rs2" "\<forall>rq \<in> set rs2. carries_auth ?self1 rq"
      by blast
    have "sent w2 = sent w @ (rs @ rs2)"
      using rs(1) rs2(1) by simp
    then have "issued w w2 = rs @ rs2"
      by (rule issued_append)
    then show ?thesis
      using Inr s c rs(2) rs2(2) by (auto simp: post_init_def tok)
  qed
qed

lemma log_handler_auth:
  "\<forall>rq \<in> set (issued w (snd (log_handler e self msg w))). carries_auth self rq"
  by (auto simp: log_handler_def http_request_def issued_def carries_auth_def Let_def
      check_response_sent_snd split: option.splits sum.splits prod.splits)

text \<open>
  C8: \<open>_headers\<close> returns \<open>{"Authorization": "Bearer <token>"}\<close> when a token, that is
  a non-empty value, is configured, and \<open>None\<close> when there is no token or the value is the
  empty string. Every request issued by \<open>service_info\<close>, \<open>create_workflow\<close>,
  \<open>__post_init__\<close> (which takes the token from the environment) and \<open>log_handler\<close> has
  the \<open>Authorization\<close> header of \<open>_headers\<close>; each GET and POST has exactly the header
  set of \<open>_headers\<close>, and the PUT has it with the content type added.
\<close>

theorem headers_uniform:
  "(token self = None \<or> token self = Some [] \<longrightarrow> self_headers self = None)
   \<and> (\<forall>t. token self = Some t \<and> t \<noteq> [] \<longrightarrow>
          self_headers self = Some [(''Authorization'', ''Bearer '' @ t)])
   \<and> (\<forall>rq \<in> set (issued w (snd (service_info e self w))). carries_auth self rq)
   \<and> (\<forall>rq \<in> set (issued w (snd (create_workflow e self w))). carries_auth self rq)
   \<and> (\<forall>rq \<in> set (issued w (snd (post_init e self w))).
          carries_auth (self\<lparr>token := environ_token e\<rparr>) rq)
   \<and> (\<forall>rq \<in> set (issued w (snd (log_handler e self msg w))). carries_auth self rq)"
proof (intro conjI)
  show "token self = None \<or> token self = Some [] \<longrightarrow> self_headers self = None"
    by (auto simp: self_headers_def)
  show "\<forall>t. token self = Some t \<and> t \<noteq> [] \<longrightarrow>
          self_headers self = Some [(''Authorization'', ''Bearer '' @ t)]"
    by (auto simp: self_headers_def)
qed (rule service_info_auth create_workflow_auth post_init_auth log_handler_auth)+

theorem headers_uniform_witness:
  "map headers (issued empty_world
      (snd (post_init (scripted_env (Some ''secret'') ready_script)
                      (provider_for ''localhost:5000'' None) empty_world)))
   = [Some [(''Authorization'', ''Bearer secret'')],
      Some [(''Authorization'', ''Bearer secret'')],
      Some [(''Authorization'', ''Bearer secret''), (''Content-Type'', ''application/json'')]]
   \<and> self_headers ((provider_for ''localhost:5000'' None)\<lparr>token := Some ''secret''\<rparr>)
       = Some [(''Authorization'', ''Bearer secret'')]"
  using headers_uniform
          [of "(provider_for ''localhost:5000'' None)\<lparr>token := Some ''secret''\<rparr>"
              empty_world "scripted_env (Some ''secret'') ready_script" 0]
  by (simp add: post_init_def service_info_def create_workflow_def http_request_def
      check_response_def response_json_def self_headers_def issued_def
      scripted_env_def answering_def ready_script_def provider_for_def empty_world_def)

section \<open>Log-event normalisation\<close>






























end
